theory Spec2Isabelle
  imports Main
begin

section \<open>Python values and dictionaries\<close>

text \<open>
  The values that travel through the session clients: decoded JSON bodies, request
  payloads and the values the methods return. A \<open>dict\<close> is a list of items in
  insertion order; floating point numbers do not occur in any of the modelled paths.
\<close>

datatype pyval =
    PyNone
  | PyBool bool
  | PyInt int
  | PyStr string
  | PyList "pyval list"
  | PyDict "(string \<times> pyval) list"

type_synonym pydict = "(string \<times> pyval) list"

text \<open>\<open>d[k] = v\<close>: an existing key keeps its position, a new key is appended.\<close>

definition dict_set :: "string \<Rightarrow> pyval \<Rightarrow> pydict \<Rightarrow> pydict" where
  "dict_set k v d =
     (case map_of d k of
        None \<Rightarrow> d @ [(k, v)]
      | Some _ \<Rightarrow> map (\<lambda>(k', v'). if k' = k then (k', v) else (k', v')) d)"

text \<open>\<open>d.update(kw)\<close>\<close>

fun dict_update :: "pydict \<Rightarrow> pydict \<Rightarrow> pydict" where
  "dict_update d [] = d"
| "dict_update d ((k, v) # kw) = dict_update (dict_set k v d) kw"

text \<open>
  Truth value of an \<open>Optional[str]\<close> argument, as tested by \<open>if user_email:\<close>:
  \<open>None\<close> and the empty string are false.
\<close>

fun truthy :: "string option \<Rightarrow> bool" where
  "truthy None = False"
| "truthy (Some s) = (s \<noteq> [])"

text \<open>
  The exceptions the interpreter or the HTTP library raises inside a \<open>try\<close> block
  and that the clients catch with \<open>except Exception as e\<close>.
\<close>

datatype cause =
    ConnectFailed  \<comment> \<open>the HTTP library could not connect\<close>
  | TimedOut  \<comment> \<open>the HTTP library gave up after the timeout\<close>
  | LibraryError string  \<comment> \<open>another exception of the HTTP library; the string is \<open>str(e)\<close>\<close>
  | HTTPError nat  \<comment> \<open>\<open>raise_for_status()\<close> with this status code\<close>
  | KeyError string
  | TypeError pyval  \<comment> \<open>subscripting or iterating a value that supports neither\<close>
  | AttributeError pyval string

text \<open>\<open>data[key]\<close>\<close>

fun subscript :: "pyval \<Rightarrow> string \<Rightarrow> cause + pyval" where
  "subscript (PyDict d) k = (case map_of d k of None \<Rightarrow> Inl (KeyError k) | Some v \<Rightarrow> Inr v)"
| "subscript v k = Inl (TypeError v)"

text \<open>\<open>data.get(key, default)\<close>; only a \<open>dict\<close> has the method.\<close>

fun py_get :: "pyval \<Rightarrow> string \<Rightarrow> pyval \<Rightarrow> cause + pyval" where
  "py_get (PyDict d) k dflt = (case map_of d k of None \<Rightarrow> Inr dflt | Some v \<Rightarrow> Inr v)"
| "py_get v k dflt = Inl (AttributeError v ''get'')"

text \<open>
  The elements a \<open>for s in sessions\<close> visits: a list yields its elements, a dict its
  keys, a string its characters; the other values are not iterable.
\<close>

fun py_iter :: "pyval \<Rightarrow> cause + pyval list" where
  "py_iter (PyList xs) = Inr xs"
| "py_iter (PyDict d) = Inr (map (\<lambda>kv. PyStr (fst kv)) d)"
| "py_iter (PyStr s) = Inr (map (\<lambda>c. PyStr [c]) s)"
| "py_iter v = Inl (TypeError v)"

section \<open>Decimal rendering of numbers in f-strings\<close>

fun str_nat :: "nat \<Rightarrow> string" where
  "str_nat n =
     (if n < 10 then [char_of (48 + n)]
      else str_nat (n div 10) @ [char_of (48 + n mod 10)])"

declare str_nat.simps [simp del]

definition str_int :: "int \<Rightarrow> string" where
  "str_int i = (if i < 0 then CHR ''-'' # str_nat (nat (- i)) else str_nat (nat i))"

section \<open>HTTP exchanges\<close>

datatype http_method = GET | POST | DELETE

text \<open>
  The URL of a request. \<open>session_manager.py\<close> builds it with
  \<open>urljoin(self.base_url, path)\<close>, the other clients with an f-string; the call to
  the library's \<open>urljoin\<close> is kept as it is written.
\<close>

datatype url = Urljoin string string | Url string

record request =
  req_method :: http_method
  req_url :: url
  req_json :: "pyval option"
  req_timeout :: int

text \<open>
  A response: its status code, its text, and what \<open>response.json()\<close> gives, which is
  either an exception of the library (\<open>Inl\<close>, with \<open>str(e)\<close>) or the decoded value.
\<close>

record response =
  resp_status :: nat
  resp_text :: string
  resp_json :: "string + pyval"

text \<open>
  What one call of the HTTP library does: it raises a connection error, a timeout, some
  other exception, or it returns a response.
\<close>

datatype net_outcome =
    Conn_Error
  | Timeout_Error
  | Other_Error string
  | Responded response

text \<open>
  \<open>requests.Response.raise_for_status()\<close> raises \<open>HTTPError\<close> for the client and server
  error classes, that is for \<open>400 <= status_code < 600\<close>.
\<close>

definition requests_raises :: "nat \<Rightarrow> bool" where
  "requests_raises s = (400 \<le> s \<and> s < 600)"

text \<open>
  \<open>aiohttp.ClientResponse.raise_for_status()\<close> raises when the response is not
  \<open>ok\<close>, that is for \<open>status >= 400\<close>.
\<close>

definition aiohttp_raises :: "nat \<Rightarrow> bool" where
  "aiohttp_raises s = (400 \<le> s)"

text \<open>
  The network and the remote service: a request and the state of the world give an
  outcome and the next state of the world.
\<close>

type_synonym 'w network = "request \<Rightarrow> 'w \<Rightarrow> net_outcome \<times> 'w"

text \<open>A network that records every request it is given, in order.\<close>

definition recording :: "'w network \<Rightarrow> (request list \<times> 'w) network" where
  "recording net req lw =
     (case net req (snd lw) of (out, w') \<Rightarrow> (out, (fst lw @ [req], w')))"

text \<open>
  A network on which every exchange has the same outcome and leaves the world as it is.
\<close>

definition fixed_network :: "net_outcome \<Rightarrow> 'w network" where
  "fixed_network out req w = (out, w)"

section \<open>The exceptions of \<open>SessionManager\<close>\<close>

datatype message = Msg string | Unexpected cause
  \<comment> \<open>\<open>Unexpected e\<close> is the text \<open>f"Unexpected error: {str(e)}"\<close>\<close>

datatype py_exception =
    ConnectionError string
  | TimeoutError string
  | ValueError message

section \<open>\<open>session_manager.py\<close>: class \<open>SessionManager\<close>\<close>

record SessionManager =
  base_url :: string
  timeout :: int

definition rstrip_slash :: "string \<Rightarrow> string" where
  "rstrip_slash s = rev (dropWhile (\<lambda>c. c = CHR ''/'') (rev s))"

definition SessionManager_init :: "string \<Rightarrow> int \<Rightarrow> SessionManager" where
  "SessionManager_init b t = \<lparr>base_url = rstrip_slash b, timeout = t\<rparr>"

definition cannot_connect :: "SessionManager \<Rightarrow> py_exception" where
  "cannot_connect self =
     ConnectionError (''Cannot connect to ADK Web at '' @ base_url self @ ''. ''
                      @ ''Make sure '' @ [CHR 0x27] @ ''adk web'' @ [CHR 0x27] @ '' is running.'')"

definition timed_out :: "SessionManager \<Rightarrow> py_exception" where
  "timed_out self =
     TimeoutError (''Request timed out after '' @ str_int (timeout self) @ '' seconds'')"

subsection \<open>\<open>create_session\<close>\<close>

text \<open>
  The state dict of \<open>create_session\<close>. The keyword arguments \<open>kwargs\<close> are the extra
  \<open>name=value\<close> pairs of the call, in the order they are written.
\<close>

definition create_session_state ::
  "string \<Rightarrow> string option \<Rightarrow> string option \<Rightarrow> pydict \<Rightarrow> pydict" where
  "create_session_state user_name user_email user_preferences kwargs =
     (let state = [(''user_name'', PyStr user_name)];
          state = (if truthy user_email
                   then dict_set ''user_email'' (PyStr (the user_email)) state else state);
          state = (if truthy user_preferences
                   then dict_set ''user_preferences'' (PyStr (the user_preferences)) state
                   else state)
      in dict_update state kwargs)"

definition create_session_request ::
  "SessionManager \<Rightarrow> string \<Rightarrow> string \<Rightarrow> string option \<Rightarrow> string option \<Rightarrow> pydict \<Rightarrow> request" where
  "create_session_request self agent_id user_name user_email user_preferences kwargs =
     \<lparr>req_method = POST,
      req_url = Urljoin (base_url self) ''/sessions'',
      req_json = Some (PyDict [(''agent_id'', PyStr agent_id),
                   (''state'', PyDict (create_session_state user_name user_email
                                         user_preferences kwargs))]),
      req_timeout = timeout self\<rparr>"

definition create_session_result :: "SessionManager \<Rightarrow> net_outcome \<Rightarrow> py_exception + pyval" where
  "create_session_result self out =
     (case out of
        Conn_Error \<Rightarrow> Inl (cannot_connect self)
      | Timeout_Error \<Rightarrow> Inl (timed_out self)
      | Other_Error m \<Rightarrow> Inl (ValueError (Unexpected (LibraryError m)))
      | Responded r \<Rightarrow>
          if requests_raises (resp_status r)
          then Inl (ValueError (Msg (''Failed to create session: '' @ str_nat (resp_status r)
                                     @ '' - '' @ resp_text r)))
          else (case resp_json r of
                  Inl m \<Rightarrow> Inl (ValueError (Unexpected (LibraryError m)))
                | Inr data \<Rightarrow>
                    (case subscript data ''session_id'' of
                       Inl c \<Rightarrow> Inl (ValueError (Unexpected c))
                     | Inr v \<Rightarrow> Inr v)))"

definition create_session ::
  "SessionManager \<Rightarrow> 'w network \<Rightarrow> string \<Rightarrow> string \<Rightarrow> string option \<Rightarrow> string option \<Rightarrow> pydict
     \<Rightarrow> 'w \<Rightarrow> (py_exception + pyval) \<times> 'w" where
  "create_session self net agent_id user_name user_email user_preferences kwargs w =
     (case net (create_session_request self agent_id user_name user_email
                  user_preferences kwargs) w of
        (out, w') \<Rightarrow> (create_session_result self out, w'))"

subsection \<open>\<open>send_message\<close>\<close>

definition send_message_request :: "SessionManager \<Rightarrow> string \<Rightarrow> string \<Rightarrow> request" where
  "send_message_request self session_id msg =
     \<lparr>req_method = POST,
      req_url = Urljoin (base_url self) ''/chat'',
      req_json = Some (PyDict [(''session_id'', PyStr session_id), (''message'', PyStr msg)]),
      req_timeout = timeout self\<rparr>"

text \<open>\<open>data.get("response", data.get("text", ""))\<close>\<close>

definition response_text :: "pyval \<Rightarrow> cause + pyval" where
  "response_text data =
     (case py_get data ''text'' (PyStr '''') of
        Inl c \<Rightarrow> Inl c
      | Inr dflt \<Rightarrow> py_get data ''response'' dflt)"

definition send_message_result ::
  "SessionManager \<Rightarrow> string \<Rightarrow> net_outcome \<Rightarrow> py_exception + pyval" where
  "send_message_result self session_id out =
     (case out of
        Conn_Error \<Rightarrow> Inl (cannot_connect self)
      | Timeout_Error \<Rightarrow> Inl (timed_out self)
      | Other_Error m \<Rightarrow> Inl (ValueError (Unexpected (LibraryError m)))
      | Responded r \<Rightarrow>
          if requests_raises (resp_status r)
          then (if resp_status r = 404
                then Inl (ValueError (Msg (''Session not found: '' @ session_id)))
                else Inl (ValueError (Msg (''Failed to send message: ''
                            @ str_nat (resp_status r) @ '' - '' @ resp_text r))))
          else (case resp_json r of
                  Inl m \<Rightarrow> Inl (ValueError (Unexpected (LibraryError m)))
                | Inr data \<Rightarrow>
                    (case response_text data of
                       Inl c \<Rightarrow> Inl (ValueError (Unexpected c))
                     | Inr v \<Rightarrow> Inr v)))"

definition send_message ::
  "SessionManager \<Rightarrow> 'w network \<Rightarrow> string \<Rightarrow> string \<Rightarrow> 'w \<Rightarrow> (py_exception + pyval) \<times> 'w" where
  "send_message self net session_id msg w =
     (case net (send_message_request self session_id msg) w of
        (out, w') \<Rightarrow> (send_message_result self session_id out, w'))"

subsection \<open>\<open>list_sessions\<close>\<close>

definition list_sessions_request :: "SessionManager \<Rightarrow> request" where
  "list_sessions_request self =
     \<lparr>req_method = GET,
      req_url = Urljoin (base_url self) ''/sessions'',
      req_json = None,
      req_timeout = timeout self\<rparr>"

text \<open>\<open>[s for s in sessions if s.get("agent_id") == agent_id]\<close> over the visited elements.\<close>

fun filter_agent :: "string \<Rightarrow> pyval list \<Rightarrow> cause + pyval list" where
  "filter_agent a [] = Inr []"
| "filter_agent a (s # ss) =
     (case py_get s ''agent_id'' PyNone of
        Inl c \<Rightarrow> Inl c
      | Inr v \<Rightarrow>
          (case filter_agent a ss of
             Inl c \<Rightarrow> Inl c
           | Inr rest \<Rightarrow> Inr (if v = PyStr a then s # rest else rest)))"

definition list_sessions_result ::
  "SessionManager \<Rightarrow> string option \<Rightarrow> net_outcome \<Rightarrow> py_exception + pyval" where
  "list_sessions_result self agent_id out =
     (case out of
        Conn_Error \<Rightarrow> Inl (cannot_connect self)
      | Timeout_Error \<Rightarrow> Inl (timed_out self)
      | Other_Error m \<Rightarrow> Inl (ValueError (Unexpected (LibraryError m)))
      | Responded r \<Rightarrow>
          if requests_raises (resp_status r)
          then Inl (ValueError (Unexpected (HTTPError (resp_status r))))
          else (case resp_json r of
                  Inl m \<Rightarrow> Inl (ValueError (Unexpected (LibraryError m)))
                | Inr data \<Rightarrow>
                    (case py_get data ''sessions'' (PyList []) of
                       Inl c \<Rightarrow> Inl (ValueError (Unexpected c))
                     | Inr sessions \<Rightarrow>
                         if truthy agent_id
                         then (case py_iter sessions of
                                 Inl c \<Rightarrow> Inl (ValueError (Unexpected c))
                               | Inr elems \<Rightarrow>
                                   (case filter_agent (the agent_id) elems of
                                      Inl c \<Rightarrow> Inl (ValueError (Unexpected c))
                                    | Inr kept \<Rightarrow> Inr (PyList kept)))
                         else Inr sessions)))"

definition list_sessions ::
  "SessionManager \<Rightarrow> 'w network \<Rightarrow> string option \<Rightarrow> 'w \<Rightarrow> (py_exception + pyval) \<times> 'w" where
  "list_sessions self net agent_id w =
     (case net (list_sessions_request self) w of
        (out, w') \<Rightarrow> (list_sessions_result self agent_id out, w'))"

section \<open>\<open>async_sessions.py\<close>: the session clients\<close>

text \<open>
  \<open>AsyncSessionClient\<close> (aiohttp) and \<open>SyncSessionClient\<close> (requests) have the same
  methods; \<open>SessionClient\<close> is the first when \<open>USE_ASYNC\<close> holds and the second
  otherwise. The client is used inside \<open>async with SessionClient() as client\<close>.
\<close>

definition AGENT_ID :: string where
  "AGENT_ID = ''dynamic_session_agent''"

record SessionClient =
  client_base_url :: string

definition SessionClient_init :: "string \<Rightarrow> SessionClient" where
  "SessionClient_init b = \<lparr>client_base_url = rstrip_slash b\<rparr>"

text \<open>\<open>response.raise_for_status()\<close> of the library the client uses.\<close>

definition client_raises :: "bool \<Rightarrow> nat \<Rightarrow> bool" where
  "client_raises USE_ASYNC s = (if USE_ASYNC then aiohttp_raises s else requests_raises s)"

text \<open>The exception a failed call of the HTTP library raises inside the \<open>try\<close> block.\<close>

fun net_exception :: "net_outcome \<Rightarrow> cause option" where
  "net_exception Conn_Error = Some ConnectFailed"
| "net_exception Timeout_Error = Some TimedOut"
| "net_exception (Other_Error m) = Some (LibraryError m)"
| "net_exception (Responded r) = None"

definition client_create_session_state ::
  "string \<Rightarrow> string option \<Rightarrow> string option \<Rightarrow> pydict" where
  "client_create_session_state user_name user_email user_preferences =
     (let state = [(''user_name'', PyStr user_name)];
          state = (if truthy user_email
                   then dict_set ''user_email'' (PyStr (the user_email)) state else state);
          state = (if truthy user_preferences
                   then dict_set ''user_preferences'' (PyStr (the user_preferences)) state
                   else state)
      in state)"

definition client_create_session_request ::
  "SessionClient \<Rightarrow> string \<Rightarrow> string option \<Rightarrow> string option \<Rightarrow> request" where
  "client_create_session_request self user_name user_email user_preferences =
     \<lparr>req_method = POST,
      req_url = Url (client_base_url self @ ''/sessions''),
      req_json = Some (PyDict [(''agent_id'', PyStr AGENT_ID),
                   (''state'', PyDict (client_create_session_state user_name user_email
                                         user_preferences))]),
      req_timeout = 10\<rparr>"

text \<open>
  The body of the \<open>try\<close> block of \<open>create_session\<close>: the exception it raises
  (\<open>Inl\<close>) or the value it returns.
\<close>

definition client_create_session_try :: "bool \<Rightarrow> net_outcome \<Rightarrow> cause + pyval" where
  "client_create_session_try USE_ASYNC out =
     (case out of
        Responded r \<Rightarrow>
          if client_raises USE_ASYNC (resp_status r) then Inl (HTTPError (resp_status r))
          else (case resp_json r of
                  Inl m \<Rightarrow> Inl (LibraryError m)
                | Inr data \<Rightarrow> subscript data ''session_id'')
      | _ \<Rightarrow> Inl (the (net_exception out)))"

text \<open>
  \<open>except Exception as e\<close>: the error is printed and the method returns \<open>None\<close>.
\<close>

definition except_return_None :: "cause + pyval \<Rightarrow> pyval" where
  "except_return_None t = (case t of Inl e \<Rightarrow> PyNone | Inr v \<Rightarrow> v)"

definition client_create_session_result :: "bool \<Rightarrow> net_outcome \<Rightarrow> pyval" where
  "client_create_session_result USE_ASYNC out =
     except_return_None (client_create_session_try USE_ASYNC out)"

definition client_send_message_request :: "SessionClient \<Rightarrow> string \<Rightarrow> string \<Rightarrow> request" where
  "client_send_message_request self session_id msg =
     \<lparr>req_method = POST,
      req_url = Url (client_base_url self @ ''/chat''),
      req_json = Some (PyDict [(''session_id'', PyStr session_id), (''message'', PyStr msg)]),
      req_timeout = 30\<rparr>"

definition client_send_message_try :: "bool \<Rightarrow> net_outcome \<Rightarrow> cause + pyval" where
  "client_send_message_try USE_ASYNC out =
     (case out of
        Responded r \<Rightarrow>
          if client_raises USE_ASYNC (resp_status r) then Inl (HTTPError (resp_status r))
          else (case resp_json r of
                  Inl m \<Rightarrow> Inl (LibraryError m)
                | Inr data \<Rightarrow> response_text data)
      | _ \<Rightarrow> Inl (the (net_exception out)))"

definition client_send_message_result :: "bool \<Rightarrow> net_outcome \<Rightarrow> pyval" where
  "client_send_message_result USE_ASYNC out =
     except_return_None (client_send_message_try USE_ASYNC out)"

section \<open>\<open>create_session.py\<close>: the state of the interactive creator\<close>

text \<open>
  The state dict that \<open>create_session\<close> of the command line tool builds; here
  \<open>conversation_context\<close> is a parameter of its own.
\<close>

definition cli_create_session_state ::
  "string \<Rightarrow> string option \<Rightarrow> string option \<Rightarrow> string option \<Rightarrow> pydict" where
  "cli_create_session_state user_name user_email user_preferences conversation_context =
     (let state = [(''user_name'', PyStr user_name)];
          state = (if truthy user_email
                   then dict_set ''user_email'' (PyStr (the user_email)) state else state);
          state = (if truthy user_preferences
                   then dict_set ''user_preferences'' (PyStr (the user_preferences)) state
                   else state);
          state = (if truthy conversation_context
                   then dict_set ''conversation_context'' (PyStr (the conversation_context)) state
                   else state)
      in state)"

section \<open>\<open>async_sessions.py\<close>: batches run by \<open>asyncio.gather\<close>\<close>

text \<open>
  A task is one call of a client method: the request it issues and what it makes of the
  network's outcome.
\<close>

type_synonym task = "request \<times> (net_outcome \<Rightarrow> pyval)"

definition create_session_task ::
  "bool \<Rightarrow> SessionClient \<Rightarrow> string \<Rightarrow> string option \<Rightarrow> string option \<Rightarrow> task" where
  "create_session_task USE_ASYNC client user_name user_email user_preferences =
     (client_create_session_request client user_name user_email user_preferences,
      client_create_session_result USE_ASYNC)"

definition send_message_task :: "bool \<Rightarrow> SessionClient \<Rightarrow> string \<Rightarrow> string \<Rightarrow> task" where
  "send_message_task USE_ASYNC client session_id msg =
     (client_send_message_request client session_id msg, client_send_message_result USE_ASYNC)"

text \<open>
  \<open>demo_3_load_test\<close>, phase 2: for every session id, \<open>messages_per_session\<close>
  messages \<open>f"Test message {i+1}"\<close>.
\<close>

definition demo_3_batch :: "string list \<Rightarrow> nat \<Rightarrow> (string \<times> string) list" where
  "demo_3_batch session_ids messages_per_session =
     concat (map (\<lambda>sid. map (\<lambda>i. (sid, ''Test message '' @ str_nat (i + 1)))
                            [0..<messages_per_session]) session_ids)"


definition message_tasks :: "bool \<Rightarrow> SessionClient \<Rightarrow> (string \<times> string) list \<Rightarrow> task list" where
  "message_tasks USE_ASYNC client batch =
     map (\<lambda>(sid, m). send_message_task USE_ASYNC client sid m) batch"

text \<open>
  The life of one task under \<open>asyncio.gather\<close>: not yet inside its HTTP call, inside
  its HTTP call (the call is entered, its outcome has not arrived), or returned.
\<close>

datatype slot = is_Pending: Pending | is_InFlight: InFlight | is_Done: Done (result: pyval)

text \<open>
  What happens on the event loop: a task enters its HTTP call (\<open>Start\<close>), or the
  outcome of the HTTP call of a task arrives and the task runs to its \<open>return\<close>
  (\<open>Complete\<close>).
\<close>

datatype event = Start nat | Complete nat net_outcome

text \<open>
  The source hands all coroutines of a batch to one \<open>asyncio.gather\<close> and has no
  semaphore, queue, lock or per-session chain, so nothing orders the tasks and nothing
  limits how many are inside their HTTP call: with aiohttp any task that has not started
  may start at any time, in any order. The methods of the \<open>requests\<close> fallback contain
  no \<open>await\<close>; their HTTP call blocks the event loop, so with the fallback a task starts
  only while no task is inside its HTTP call. An outcome can arrive only for a task
  that is inside its HTTP call.
\<close>

fun step :: "bool \<Rightarrow> task list \<Rightarrow> event \<Rightarrow> slot list \<Rightarrow> slot list option" where
  "step USE_ASYNC ts (Start i) s =
     (if i < length s \<and> is_Pending (s ! i)
         \<and> (USE_ASYNC \<or> list_all (\<lambda>x. \<not> is_InFlight x) s)
      then Some (s[i := InFlight]) else None)"
| "step USE_ASYNC ts (Complete i out) s =
     (if i < length s \<and> i < length ts \<and> is_InFlight (s ! i)
      then Some (s[i := Done (snd (ts ! i) out)]) else None)"

fun run :: "bool \<Rightarrow> task list \<Rightarrow> event list \<Rightarrow> slot list \<Rightarrow> slot list option" where
  "run USE_ASYNC ts [] s = Some s"
| "run USE_ASYNC ts (e # es) s =
     (case step USE_ASYNC ts e s of
        None \<Rightarrow> None
      | Some s' \<Rightarrow> run USE_ASYNC ts es s')"

definition gather_init :: "task list \<Rightarrow> slot list" where
  "gather_init ts = replicate (length ts) Pending"

text \<open>The number of tasks that are inside their HTTP call.\<close>

definition in_flight :: "slot list \<Rightarrow> nat" where
  "in_flight s = length (filter is_InFlight s)"

text \<open>\<open>await asyncio.gather(*tasks)\<close> returns once every task has returned.\<close>

definition gather_result :: "slot list \<Rightarrow> pyval list option" where
  "gather_result s = (if list_all is_Done s then Some (map result s) else None)"

text \<open>The outcome that a trace delivers to task \<open>i\<close>, if it delivers one.\<close>

fun delivered :: "event list \<Rightarrow> nat \<Rightarrow> net_outcome option" where
  "delivered [] i = None"
| "delivered (Start j # es) i = delivered es i"
| "delivered (Complete j out # es) i = (if j = i then Some out else delivered es i)"

section \<open>Facts about dictionaries and status codes\<close>

lemma map_of_map_replace:
  "map_of (map (\<lambda>(k', v'). if k' = k then (k', v) else (k', v')) d) =
     (if map_of d k = None then map_of d else (map_of d)(k \<mapsto> v))"
  by (induction d) (auto simp: fun_eq_iff)

lemma map_of_dict_set: "map_of (dict_set k v d) = (map_of d)(k \<mapsto> v)"
proof (cases "map_of d k")
  case None
  then show ?thesis
    by (auto simp: dict_set_def fun_eq_iff map_add_def split: option.splits)
next
  case (Some a)
  then show ?thesis
    by (simp add: dict_set_def map_of_map_replace)
qed

lemma map_of_dict_update: "map_of (dict_update d kw) = map_of d ++ map_of (rev kw)"
proof (induction kw arbitrary: d)
  case Nil
  show ?case by simp
next
  case (Cons kv kw)
  obtain k v where kv: "kv = (k, v)" by (cases kv)
  have "map_of (dict_update d (kv # kw)) = (map_of d)(k \<mapsto> v) ++ map_of (rev kw)"
    by (simp only: kv dict_update.simps Cons.IH map_of_dict_set)
  also have "\<dots> = map_of d ++ map_of (rev (kv # kw))"
    by (simp add: kv fun_eq_iff map_add_def split: option.splits)
  finally show ?case .
qed

lemma map_of_rev_None: "k \<notin> fst ` set kw \<Longrightarrow> map_of (rev kw) k = None"
  by (simp add: map_of_eq_None_iff)

lemma map_of_rev_Some: "k \<in> fst ` set kw \<Longrightarrow> map_of (rev kw) k \<noteq> None"
  by (simp add: map_of_eq_None_iff)

lemma requests_2xx: "200 \<le> s \<Longrightarrow> s < 300 \<Longrightarrow> \<not> requests_raises s"
  by (simp add: requests_raises_def)

lemma client_2xx: "200 \<le> s \<Longrightarrow> s < 300 \<Longrightarrow> \<not> client_raises USE_ASYNC s"
  by (simp add: client_raises_def aiohttp_raises_def requests_raises_def)

lemma response_text_dict:
  "response_text (PyDict d) =
     Inr (case map_of d ''response'' of
            Some v \<Rightarrow> v
          | None \<Rightarrow> (case map_of d ''text'' of Some v \<Rightarrow> v | None \<Rightarrow> PyStr ''''))"
  by (simp add: response_text_def split: option.splits)

section \<open>Creating a session with an empty user name\<close>

text \<open>
  Claim C5, as stated, at a concrete call: \<open>SessionManager.create_session\<close> with the
  empty \<open>user_name\<close> is not rejected. It posts \<open>{agent_id, state: {user_name: ""}}\<close>
  to \<open>/sessions\<close>, and when the remote answers 200 with a session id the call returns
  that id.
\<close>

theorem create_session_empty_user_name_posts:
  "create_session (SessionManager_init ''http://localhost:8000'' 30)
         (recording (fixed_network (Responded \<lparr>resp_status = 200, resp_text = ''ok'',
              resp_json = Inr (PyDict [(''session_id'', PyStr ''s1'')])\<rparr>)))
         ''dynamic_session_agent'' '''' None None [] ([], ())
   = (Inr (PyStr ''s1''),
      ([\<lparr>req_method = POST, req_url = Urljoin ''http://localhost:8000'' ''/sessions'',
         req_json = Some (PyDict [(''agent_id'', PyStr ''dynamic_session_agent''),
                                  (''state'', PyDict [(''user_name'', PyStr '''')])]),
         req_timeout = 30\<rparr>], ()))"
  by (simp add: create_session_def recording_def fixed_network_def create_session_request_def
      create_session_state_def create_session_result_def SessionManager_init_def rstrip_slash_def
      requests_raises_def)

text \<open>
  Claim C5, amended: \<open>create_session\<close> does not inspect \<open>user_name\<close>. For every
  \<open>user_name\<close>, empty or not, the call issues exactly one request, the POST it builds
  from its arguments, and its result is what the response handling makes of the
  network's outcome. The task that the asynchronous client's \<open>create_session\<close> forms
  likewise always carries its request.
\<close>

theorem create_session_posts_any_user_name:
  "fst (snd (create_session self (recording net) agent_id user_name user_email
               user_preferences kwargs (log, w))) =
     log @ [create_session_request self agent_id user_name user_email user_preferences kwargs]
   \<and> fst (create_session self (recording net) agent_id user_name user_email
               user_preferences kwargs (log, w)) =
     create_session_result self
       (fst (net (create_session_request self agent_id user_name user_email
                    user_preferences kwargs) w))
   \<and> fst (create_session_task USE_ASYNC client user_name user_email user_preferences) =
       client_create_session_request client user_name user_email user_preferences"
  by (simp add: create_session_def recording_def create_session_task_def split: prod.splits)

section \<open>The errors of \<open>send_message\<close>\<close>

text \<open>
  Claim C6, as stated, at a concrete response: status 300 is not a 2xx status, yet
  \<open>raise_for_status()\<close> does not raise for it, and \<open>send_message\<close> returns the
  \<open>response\<close> field of the body instead of failing.
\<close>

theorem send_message_300_returns:
  "send_message_result (SessionManager_init ''http://localhost:8000'' 30) ''abc''
     (Responded \<lparr>resp_status = 300, resp_text = ''choices'',
                 resp_json = Inr (PyDict [(''response'', PyStr ''hi'')])\<rparr>)
   = Inr (PyStr ''hi'')"
  by (simp add: send_message_result_def requests_raises_def response_text_def)

text \<open>
  Claim C6, amended, for \<open>SessionManager.send_message\<close>: when the exchange yields a
  status from 400 to 599, the call fails, for 404 with
  \<open>ValueError("Session not found: <session_id>")\<close> and for every other such status with
  \<open>ValueError("Failed to send message: <status> - <body>")\<close>; the two are values of the
  same exception class and always differ in their message. Every other status, the
  non-2xx ones below 400 and from 600 on included, is no failure: the call does what
  it does for status 200, it decodes the body and returns its response text, and fails
  only if that fails. The \<open>send_message\<close> of the clients in \<open>async_sessions.py\<close> makes
  no such difference: for 404 as for every other status from 400 to 599 it returns
  \<open>None\<close>.
\<close>

theorem send_message_error_status:
  "(400 \<le> resp_status r \<and> resp_status r < 600 \<longrightarrow>
      send_message_result self session_id (Responded r) =
        (if resp_status r = 404
         then Inl (ValueError (Msg (''Session not found: '' @ session_id)))
         else Inl (ValueError (Msg (''Failed to send message: '' @ str_nat (resp_status r)
                                    @ '' - '' @ resp_text r)))))
   \<and> ''Session not found: '' @ session_id
         \<noteq> ''Failed to send message: '' @ str_nat s @ '' - '' @ body
   \<and> (resp_status r < 400 \<or> 600 \<le> resp_status r \<longrightarrow>
        send_message_result self session_id (Responded r) =
          send_message_result self session_id (Responded (r\<lparr>resp_status := 200\<rparr>))
      \<and> send_message_result self session_id (Responded r) =
          (case resp_json r of
             Inl m \<Rightarrow> Inl (ValueError (Unexpected (LibraryError m)))
           | Inr data \<Rightarrow>
               (case response_text data of
                  Inl c \<Rightarrow> Inl (ValueError (Unexpected c))
                | Inr v \<Rightarrow> Inr v)))
   \<and> (400 \<le> resp_status r \<and> resp_status r < 600 \<longrightarrow>
        client_send_message_result USE_ASYNC (Responded r) = PyNone)"
proof -
  have 1: "send_message_result self session_id (Responded r) =
        (if resp_status r = 404
         then Inl (ValueError (Msg (''Session not found: '' @ session_id)))
         else Inl (ValueError (Msg (''Failed to send message: '' @ str_nat (resp_status r)
                                    @ '' - '' @ resp_text r))))"
    if "400 \<le> resp_status r \<and> resp_status r < 600"
    using that by (simp add: send_message_result_def requests_raises_def)
  have 2: "''Session not found: '' @ session_id
         \<noteq> ''Failed to send message: '' @ str_nat s @ '' - '' @ body"
    by simp
  have 3: "send_message_result self session_id (Responded r) =
          send_message_result self session_id (Responded (r\<lparr>resp_status := 200\<rparr>))
      \<and> send_message_result self session_id (Responded r) =
          (case resp_json r of
             Inl m \<Rightarrow> Inl (ValueError (Unexpected (LibraryError m)))
           | Inr data \<Rightarrow>
               (case response_text data of
                  Inl c \<Rightarrow> Inl (ValueError (Unexpected c))
                | Inr v \<Rightarrow> Inr v))"
    if "resp_status r < 400 \<or> 600 \<le> resp_status r"
  proof -
    have "\<not> requests_raises (resp_status r)"
      using that by (auto simp: requests_raises_def)
    moreover have "\<not> requests_raises 200"
      by (simp add: requests_raises_def)
    ultimately show ?thesis
      by (simp add: send_message_result_def)
  qed
  have 4: "client_send_message_result USE_ASYNC (Responded r) = PyNone"
    if "400 \<le> resp_status r \<and> resp_status r < 600"
    using that
    by (simp add: client_send_message_result_def client_send_message_try_def
        except_return_None_def client_raises_def aiohttp_raises_def requests_raises_def)
  from 1 2 3 4 show ?thesis by blast
qed

theorem send_message_error_status_witness:
  "send_message_result (SessionManager_init ''http://localhost:8000'' 30) ''abc''
     (Responded \<lparr>resp_status = 404, resp_text = ''gone'', resp_json = Inl ''no json''\<rparr>)
     = Inl (ValueError (Msg ''Session not found: abc''))
   \<and> send_message_result (SessionManager_init ''http://localhost:8000'' 30) ''abc''
     (Responded \<lparr>resp_status = 500, resp_text = ''boom'', resp_json = Inl ''no json''\<rparr>)
     = Inl (ValueError (Msg ''Failed to send message: 500 - boom''))
   \<and> send_message_result (SessionManager_init ''http://localhost:8000'' 30) ''abc''
     (Responded \<lparr>resp_status = 300, resp_text = ''choices'',
                 resp_json = Inr (PyDict [(''text'', PyStr ''there'')])\<rparr>)
     = Inr (PyStr ''there'')
   \<and> client_send_message_result True
     (Responded \<lparr>resp_status = 404, resp_text = ''gone'', resp_json = Inl ''no json''\<rparr>)
     = PyNone
   \<and> client_send_message_result False
     (Responded \<lparr>resp_status = 500, resp_text = ''boom'', resp_json = Inl ''no json''\<rparr>)
     = PyNone"
proof -
  let ?m = "SessionManager_init ''http://localhost:8000'' 30"
  let ?r404 = "\<lparr>resp_status = 404, resp_text = ''gone'', resp_json = Inl ''no json''\<rparr>"
  let ?r500 = "\<lparr>resp_status = 500, resp_text = ''boom'', resp_json = Inl ''no json''\<rparr>"
  let ?r300 = "\<lparr>resp_status = 300, resp_text = ''choices'',
                 resp_json = Inr (PyDict [(''text'', PyStr ''there'')])\<rparr>"
  have s: "str_nat 500 = ''500''" by code_simp
  have a: "send_message_result ?m ''abc'' (Responded ?r404)
             = Inl (ValueError (Msg ''Session not found: abc''))"
    using send_message_error_status [of ?r404 ?m "''abc''"] by simp
  have b: "send_message_result ?m ''abc'' (Responded ?r500)
             = Inl (ValueError (Msg ''Failed to send message: 500 - boom''))"
    using send_message_error_status [of ?r500 ?m "''abc''"] s by simp
  have h: "resp_status ?r300 < 400 \<or> 600 \<le> resp_status ?r300"
    by simp
  from send_message_error_status [of ?r300 ?m "''abc''"] h
  have "send_message_result ?m ''abc'' (Responded ?r300) =
          (case resp_json ?r300 of
             Inl m \<Rightarrow> Inl (ValueError (Unexpected (LibraryError m)))
           | Inr data \<Rightarrow>
               (case response_text data of
                  Inl c \<Rightarrow> Inl (ValueError (Unexpected c))
                | Inr v \<Rightarrow> Inr v))"
    by blast
  then have c: "send_message_result ?m ''abc'' (Responded ?r300) = Inr (PyStr ''there'')"
    by (simp add: response_text_dict)
  have d: "client_send_message_result True (Responded ?r404) = PyNone"
    using send_message_error_status [where r = ?r404 and USE_ASYNC = True] by simp
  have e: "client_send_message_result False (Responded ?r500) = PyNone"
    using send_message_error_status [where r = ?r500 and USE_ASYNC = False] by simp
  from a b c d e show ?thesis by blast
qed

section \<open>The response field of \<open>send_message\<close>\<close>

text \<open>
  Claim C7: for every 2xx response whose body decodes to an object, \<open>send_message\<close>
  returns the value of the \<open>response\<close> field when the object has one, and otherwise
  the value of the \<open>text\<close> field (the empty string when it has neither). The
  \<open>send_message\<close> of the clients in \<open>async_sessions.py\<close> returns the same value.
\<close>

theorem send_message_response_field:
  assumes "net (send_message_request self session_id msg) w = (Responded r, w')"
    and "200 \<le> resp_status r" and "resp_status r < 300"
    and "resp_json r = Inr (PyDict d)"
  shows "fst (send_message self net session_id msg w) =
           Inr (case map_of d ''response'' of
                  Some v \<Rightarrow> v
                | None \<Rightarrow> (case map_of d ''text'' of Some v \<Rightarrow> v | None \<Rightarrow> PyStr ''''))
       \<and> client_send_message_result USE_ASYNC (Responded r) =
           (case map_of d ''response'' of
                  Some v \<Rightarrow> v
                | None \<Rightarrow> (case map_of d ''text'' of Some v \<Rightarrow> v | None \<Rightarrow> PyStr ''''))"
proof -
  have ok: "\<not> requests_raises (resp_status r)"
    using assms(2,3) by (rule requests_2xx)
  have ok': "\<not> client_raises USE_ASYNC (resp_status r)"
    using assms(2,3) by (rule client_2xx)
  have "fst (send_message self net session_id msg w) =
           Inr (case map_of d ''response'' of
                  Some v \<Rightarrow> v
                | None \<Rightarrow> (case map_of d ''text'' of Some v \<Rightarrow> v | None \<Rightarrow> PyStr ''''))"
    using assms(1,4) ok
    by (simp add: send_message_def send_message_result_def response_text_dict)
  moreover have "client_send_message_result USE_ASYNC (Responded r) =
           (case map_of d ''response'' of
                  Some v \<Rightarrow> v
                | None \<Rightarrow> (case map_of d ''text'' of Some v \<Rightarrow> v | None \<Rightarrow> PyStr ''''))"
    using assms(4) ok'
    by (simp add: client_send_message_result_def client_send_message_try_def
        except_return_None_def response_text_dict)
  ultimately show ?thesis by simp
qed

theorem send_message_response_field_witness:
  "fst (send_message (SessionManager_init ''http://localhost:8000'' 30)
          (fixed_network (Responded \<lparr>resp_status = 200, resp_text = ''ok'',
             resp_json = Inr (PyDict [(''text'', PyStr ''second''),
                                      (''response'', PyStr ''first'')])\<rparr>))
          ''abc'' ''Hello'' ()) = Inr (PyStr ''first'')
   \<and> fst (send_message (SessionManager_init ''http://localhost:8000'' 30)
          (fixed_network (Responded \<lparr>resp_status = 200, resp_text = ''ok'',
             resp_json = Inr (PyDict [(''text'', PyStr ''second'')])\<rparr>))
          ''abc'' ''Hello'' ()) = Inr (PyStr ''second'')"
  using send_message_response_field
          [of "fixed_network (Responded \<lparr>resp_status = 200, resp_text = ''ok'',
             resp_json = Inr (PyDict [(''text'', PyStr ''second''),
                                      (''response'', PyStr ''first'')])\<rparr>)"
              "SessionManager_init ''http://localhost:8000'' 30" "''abc''" "''Hello''" "()"
              "\<lparr>resp_status = 200, resp_text = ''ok'',
             resp_json = Inr (PyDict [(''text'', PyStr ''second''),
                                      (''response'', PyStr ''first'')])\<rparr>" "()"
              "[(''text'', PyStr ''second''), (''response'', PyStr ''first'')]"]
        send_message_response_field
          [of "fixed_network (Responded \<lparr>resp_status = 200, resp_text = ''ok'',
             resp_json = Inr (PyDict [(''text'', PyStr ''second'')])\<rparr>)"
              "SessionManager_init ''http://localhost:8000'' 30" "''abc''" "''Hello''" "()"
              "\<lparr>resp_status = 200, resp_text = ''ok'',
             resp_json = Inr (PyDict [(''text'', PyStr ''second'')])\<rparr>" "()"
              "[(''text'', PyStr ''second'')]"]
  by (simp add: fixed_network_def)

section \<open>The request of \<open>send_message\<close>\<close>

text \<open>
  Claim C9: \<open>send_message\<close> issues exactly one request, and its JSON body is
  \<open>{session_id, message}\<close> built from the arguments of the call. Two calls that agree
  on the session id and the message text send the same body, whatever the manager, the
  network, the state of the world (the other sessions and their history) and the
  requests sent before. The clients in \<open>async_sessions.py\<close> build the same body.
\<close>

theorem send_message_request_body:
  "map req_json (fst (snd (send_message self (recording net) session_id msg (log, w)))) =
     map req_json log
       @ [Some (PyDict [(''session_id'', PyStr session_id), (''message'', PyStr msg)])]
   \<and> drop (length log)
        (map req_json (fst (snd (send_message self (recording net) session_id msg (log, w)))))
     = drop (length log')
        (map req_json (fst (snd (send_message self' (recording net') session_id msg (log', w')))))
   \<and> req_json (client_send_message_request client session_id msg) =
       Some (PyDict [(''session_id'', PyStr session_id), (''message'', PyStr msg)])"
  by (simp add: send_message_def recording_def send_message_request_def
      client_send_message_request_def split: prod.splits)

section \<open>Filtering the session list\<close>

lemma filter_agent_dicts:
  "\<forall>s\<in>set ss. \<exists>items. s = PyDict items \<Longrightarrow>
   filter_agent a ss = Inr (filter (\<lambda>s. subscript s ''agent_id'' = Inr (PyStr a)) ss)"
proof (induction ss)
  case Nil
  show ?case by simp
next
  case (Cons s ss)
  then obtain items where s: "s = PyDict items" by auto
  have rest: "filter_agent a ss = Inr (filter (\<lambda>s. subscript s ''agent_id'' = Inr (PyStr a)) ss)"
    using Cons by simp
  show ?case
    by (cases "map_of items ''agent_id''") (simp_all add: s rest)
qed

text \<open>
  Claim C8, as stated, at a concrete call: with the empty string as the agent filter,
  \<open>list_sessions\<close> returns the whole remote list, although the session in it has the
  agent id \<open>a\<close>, not the empty string.
\<close>

theorem list_sessions_empty_filter_returns_all:
  "list_sessions_result (SessionManager_init ''http://localhost:8000'' 30) (Some '''')
     (Responded \<lparr>resp_status = 200, resp_text = ''ok'',
        resp_json = Inr (PyDict [(''sessions'',
                      PyList [PyDict [(''session_id'', PyStr ''s1''),
                                      (''agent_id'', PyStr ''a'')]])])\<rparr>)
   = Inr (PyList [PyDict [(''session_id'', PyStr ''s1''), (''agent_id'', PyStr ''a'')]])
   \<and> subscript (PyDict [(''session_id'', PyStr ''s1''), (''agent_id'', PyStr ''a'')])
         ''agent_id'' \<noteq> Inr (PyStr '''')"
  by (simp add: list_sessions_result_def requests_raises_def)

text \<open>
  Claim C8, amended: for a 2xx response whose body holds a list of session objects under
  \<open>sessions\<close>, a call with a non-empty agent filter returns exactly the sessions of
  that list whose \<open>agent_id\<close> equals the filter, in their order; a call with no
  filter, or with the empty string as the filter, returns the list unchanged.
\<close>

theorem list_sessions_filter:
  assumes "net (list_sessions_request self) w = (Responded r, w')"
    and "200 \<le> resp_status r" and "resp_status r < 300"
    and "resp_json r = Inr (PyDict d)"
    and "map_of d ''sessions'' = Some (PyList ss)"
    and "\<forall>s\<in>set ss. \<exists>items. s = PyDict items"
  shows "(a \<noteq> [] \<longrightarrow>
            fst (list_sessions self net (Some a) w) =
              Inr (PyList (filter (\<lambda>s. subscript s ''agent_id'' = Inr (PyStr a)) ss)))
       \<and> fst (list_sessions self net (Some []) w) = Inr (PyList ss)
       \<and> fst (list_sessions self net None w) = Inr (PyList ss)"
proof -
  have ok: "\<not> requests_raises (resp_status r)"
    using assms(2,3) by (rule requests_2xx)
  have sessions: "py_get (PyDict d) ''sessions'' (PyList []) = Inr (PyList ss)"
    using assms(5) by simp
  have res: "fst (list_sessions self net agent_id w) =
               (if truthy agent_id
                then Inr (PyList (filter (\<lambda>s. subscript s ''agent_id''
                                                 = Inr (PyStr (the agent_id))) ss))
                else Inr (PyList ss))" for agent_id
    using assms(1,4) ok sessions filter_agent_dicts [OF assms(6)]
    by (simp add: list_sessions_def list_sessions_result_def)
  show ?thesis
    by (simp add: res)
qed

theorem list_sessions_filter_witness:
  "fst (list_sessions (SessionManager_init ''http://localhost:8000'' 30)
         (fixed_network (Responded \<lparr>resp_status = 200, resp_text = ''ok'',
            resp_json = Inr (PyDict [(''sessions'',
               PyList [PyDict [(''session_id'', PyStr ''s1''), (''agent_id'', PyStr ''a'')],
                       PyDict [(''session_id'', PyStr ''s2''), (''agent_id'', PyStr ''b'')],
                       PyDict [(''session_id'', PyStr ''s3''), (''agent_id'', PyStr ''a'')]])])\<rparr>))
         (Some ''a'') ())
   = Inr (PyList [PyDict [(''session_id'', PyStr ''s1''), (''agent_id'', PyStr ''a'')],
                  PyDict [(''session_id'', PyStr ''s3''), (''agent_id'', PyStr ''a'')]])"
  using list_sessions_filter
     [of "fixed_network (Responded \<lparr>resp_status = 200, resp_text = ''ok'',
            resp_json = Inr (PyDict [(''sessions'',
               PyList [PyDict [(''session_id'', PyStr ''s1''), (''agent_id'', PyStr ''a'')],
                       PyDict [(''session_id'', PyStr ''s2''), (''agent_id'', PyStr ''b'')],
                       PyDict [(''session_id'', PyStr ''s3''), (''agent_id'', PyStr ''a'')]])])\<rparr>)"
         "SessionManager_init ''http://localhost:8000'' 30" "()"
         "\<lparr>resp_status = 200, resp_text = ''ok'',
            resp_json = Inr (PyDict [(''sessions'',
               PyList [PyDict [(''session_id'', PyStr ''s1''), (''agent_id'', PyStr ''a'')],
                       PyDict [(''session_id'', PyStr ''s2''), (''agent_id'', PyStr ''b'')],
                       PyDict [(''session_id'', PyStr ''s3''), (''agent_id'', PyStr ''a'')]])])\<rparr>"
         "()"
         "[(''sessions'',
               PyList [PyDict [(''session_id'', PyStr ''s1''), (''agent_id'', PyStr ''a'')],
                       PyDict [(''session_id'', PyStr ''s2''), (''agent_id'', PyStr ''b'')],
                       PyDict [(''session_id'', PyStr ''s3''), (''agent_id'', PyStr ''a'')]])]"
         "[PyDict [(''session_id'', PyStr ''s1''), (''agent_id'', PyStr ''a'')],
                       PyDict [(''session_id'', PyStr ''s2''), (''agent_id'', PyStr ''b'')],
                       PyDict [(''session_id'', PyStr ''s3''), (''agent_id'', PyStr ''a'')]]"
         "''a''"]
  by (simp add: fixed_network_def)

section \<open>The state posted by \<open>create_session\<close>\<close>

text \<open>
  Claim C10, as stated, at a concrete call: \<open>SessionManager.create_session\<close> receives
  \<open>conversation_context\<close> as an extra keyword argument, and \<open>state.update(kwargs)\<close>
  puts it into the posted state although its value is the empty string.
\<close>

theorem create_session_state_empty_extra_key:
  "create_session_state ''Alice'' None None [(''conversation_context'', PyStr '''')]
     = [(''user_name'', PyStr ''Alice''), (''conversation_context'', PyStr '''')]"
  by (simp add: create_session_state_def dict_set_def)

lemma map_of_manager_state:
  "map_of (create_session_state u e p kwargs) =
     ((([''user_name'' \<mapsto> PyStr u]
        ++ (if truthy e then [''user_email'' \<mapsto> PyStr (the e)] else Map.empty))
        ++ (if truthy p then [''user_preferences'' \<mapsto> PyStr (the p)] else Map.empty))
        ++ map_of (rev kwargs))"
  by (simp add: create_session_state_def Let_def map_of_dict_update map_of_dict_set)

text \<open>
  Claim C10, amended: in the state that \<open>create_session\<close> posts, \<open>user_name\<close> is
  always present with the supplied value, and \<open>user_email\<close> and
  \<open>user_preferences\<close> are present exactly when their supplied value is truthy (an
  empty string is left out); this holds for \<open>SessionManager\<close> and for the clients of
  \<open>async_sessions.py\<close>. Every extra keyword argument of
  \<open>SessionManager.create_session\<close>, \<open>conversation_context\<close> among them, is present
  with its value whatever that value is. Where \<open>conversation_context\<close> is a parameter
  of its own, in the command line tool, it is present exactly when it is truthy. The
  extra keywords cannot be named like the parameters.
\<close>

theorem create_session_state_keys:
  assumes "{''user_name'', ''user_email'', ''user_preferences''} \<inter> fst ` set kwargs = {}"
  shows "map_of (create_session_state u e p kwargs) ''user_name'' = Some (PyStr u)
       \<and> map_of (create_session_state u e p kwargs) ''user_email''
           = (if truthy e then Some (PyStr (the e)) else None)
       \<and> map_of (create_session_state u e p kwargs) ''user_preferences''
           = (if truthy p then Some (PyStr (the p)) else None)
       \<and> (\<forall>k\<in>fst ` set kwargs.
             map_of (create_session_state u e p kwargs) k = map_of (rev kwargs) k
           \<and> map_of (create_session_state u e p kwargs) k \<noteq> None)
       \<and> map_of (client_create_session_state u e p) ''user_name'' = Some (PyStr u)
       \<and> map_of (client_create_session_state u e p) ''user_email''
           = (if truthy e then Some (PyStr (the e)) else None)
       \<and> map_of (client_create_session_state u e p) ''user_preferences''
           = (if truthy p then Some (PyStr (the p)) else None)
       \<and> map_of (cli_create_session_state u e p c) ''conversation_context''
           = (if truthy c then Some (PyStr (the c)) else None)"
proof -
  have n: "map_of (rev kwargs) ''user_name'' = None"
     "map_of (rev kwargs) ''user_email'' = None"
     "map_of (rev kwargs) ''user_preferences'' = None"
    using assms by (auto intro: map_of_rev_None)
  have 1: "map_of (create_session_state u e p kwargs) ''user_name'' = Some (PyStr u)"
    by (simp add: map_of_manager_state map_add_def n)
  have 2: "map_of (create_session_state u e p kwargs) ''user_email''
           = (if truthy e then Some (PyStr (the e)) else None)"
    by (simp add: map_of_manager_state map_add_def n)
  have 3: "map_of (create_session_state u e p kwargs) ''user_preferences''
           = (if truthy p then Some (PyStr (the p)) else None)"
    by (simp add: map_of_manager_state map_add_def n)
  have 4: "\<forall>k\<in>fst ` set kwargs.
             map_of (create_session_state u e p kwargs) k = map_of (rev kwargs) k
           \<and> map_of (create_session_state u e p kwargs) k \<noteq> None"
  proof
    fix k assume "k \<in> fst ` set kwargs"
    then have "map_of (rev kwargs) k \<noteq> None" by (rule map_of_rev_Some)
    then show "map_of (create_session_state u e p kwargs) k = map_of (rev kwargs) k
           \<and> map_of (create_session_state u e p kwargs) k \<noteq> None"
      by (auto simp: map_of_manager_state map_add_def)
  qed
  have 5: "map_of (client_create_session_state u e p) ''user_name'' = Some (PyStr u)"
    by (simp add: client_create_session_state_def Let_def map_of_dict_set)
  have 6: "map_of (client_create_session_state u e p) ''user_email''
           = (if truthy e then Some (PyStr (the e)) else None)"
    by (simp add: client_create_session_state_def Let_def map_of_dict_set)
  have 7: "map_of (client_create_session_state u e p) ''user_preferences''
           = (if truthy p then Some (PyStr (the p)) else None)"
    by (simp add: client_create_session_state_def Let_def map_of_dict_set)
  have 8: "map_of (cli_create_session_state u e p c) ''conversation_context''
           = (if truthy c then Some (PyStr (the c)) else None)"
    by (simp add: cli_create_session_state_def Let_def map_of_dict_set)
  from 1 2 3 4 5 6 7 8 show ?thesis by blast
qed

theorem create_session_state_keys_witness:
  "map_of (create_session_state ''Alice'' (Some '''') (Some ''likes tea'')
             [(''conversation_context'', PyStr '''')]) ''user_name'' = Some (PyStr ''Alice'')
   \<and> map_of (create_session_state ''Alice'' (Some '''') (Some ''likes tea'')
             [(''conversation_context'', PyStr '''')]) ''user_email'' = None
   \<and> map_of (create_session_state ''Alice'' (Some '''') (Some ''likes tea'')
             [(''conversation_context'', PyStr '''')]) ''user_preferences''
        = Some (PyStr ''likes tea'')
   \<and> map_of (create_session_state ''Alice'' (Some '''') (Some ''likes tea'')
             [(''conversation_context'', PyStr '''')]) ''conversation_context''
        = Some (PyStr '''')"
  using create_session_state_keys
    [of "[(''conversation_context'', PyStr '''')]" "''Alice''" "Some ''''" "Some ''likes tea''"]
  by simp

section \<open>Facts about runs of a batch\<close>

lemma step_length: "step a ts e s = Some s' \<Longrightarrow> length s' = length s"
  by (cases e) (auto split: if_splits)

lemma run_length: "run a ts evs s = Some s' \<Longrightarrow> length s' = length s"
proof (induction evs arbitrary: s)
  case Nil
  then show ?case by simp
next
  case (Cons e es)
  then show ?case
    by (auto split: option.splits dest: step_length)
qed

lemma run_append:
  "run a ts (xs @ ys) s = (case run a ts xs s of None \<Rightarrow> None | Some s' \<Rightarrow> run a ts ys s')"
  by (induction xs arbitrary: s) (auto split: option.splits)

lemma step_done_stays:
  assumes "step a ts e s = Some s'" and "i < length s" and "s ! i = Done r"
  shows "s' ! i = Done r"
proof (cases e)
  case (Start k)
  with assms have "k \<noteq> i" and "s' = s[k := InFlight]"
    by (auto split: if_splits)
  with assms show ?thesis by simp
next
  case (Complete k out)
  with assms have "k \<noteq> i" and "s' = s[k := Done (snd (ts ! k) out)]"
    by (auto split: if_splits)
  with assms show ?thesis by simp
qed

lemma run_done_stays:
  "run a ts evs s = Some s' \<Longrightarrow> i < length s \<Longrightarrow> s ! i = Done r \<Longrightarrow> s' ! i = Done r"
proof (induction evs arbitrary: s)
  case Nil
  then show ?case by simp
next
  case (Cons e es)
  from Cons.prems(1) obtain s1 where s1: "step a ts e s = Some s1" "run a ts es s1 = Some s'"
    by (auto split: option.splits)
  have "s1 ! i = Done r"
    using s1(1) Cons.prems(2,3) by (rule step_done_stays)
  moreover have "i < length s1"
    using s1(1) Cons.prems(2) by (simp add: step_length)
  ultimately show ?case
    using Cons.IH s1(2) by blast
qed

lemma run_done_delivered:
  "run a ts evs s = Some s' \<Longrightarrow> i < length s \<Longrightarrow> \<not> is_Done (s ! i) \<Longrightarrow> is_Done (s' ! i)
   \<Longrightarrow> \<exists>out. delivered evs i = Some out \<and> s' ! i = Done (snd (ts ! i) out)"
proof (induction evs arbitrary: s)
  case Nil
  then show ?case by simp
next
  case (Cons e es)
  from Cons.prems(1) obtain s1 where s1: "step a ts e s = Some s1" "run a ts es s1 = Some s'"
    by (auto split: option.splits)
  have len: "i < length s1"
    using s1(1) Cons.prems(2) by (simp add: step_length)
  show ?case
  proof (cases "\<exists>out. e = Complete i out")
    case True
    then obtain out where e: "e = Complete i out" by blast
    have "s1 ! i = Done (snd (ts ! i) out)"
      using s1(1) Cons.prems(2) by (auto simp: e split: if_splits)
    then have "s' ! i = Done (snd (ts ! i) out)"
      using s1(2) len run_done_stays by blast
    then show ?thesis by (simp add: e)
  next
    case False
    have nd: "\<not> is_Done (s1 ! i)"
    proof (cases e)
      case (Start k)
      then show ?thesis
        using s1(1) Cons.prems(2,3) by (cases "k = i") (auto split: if_splits)
    next
      case (Complete k out)
      with False have "k \<noteq> i" by simp
      then show ?thesis
        using s1(1) Cons.prems(2,3) Complete by (auto split: if_splits)
    qed
    have del: "delivered (e # es) i = delivered es i"
      using False by (cases e) auto
    from Cons.IH [OF s1(2) len nd Cons.prems(4)] show ?thesis
      by (simp add: del)
  qed
qed

lemma gather_result_Some:
  "gather_result s = Some rs \<Longrightarrow> list_all is_Done s \<and> rs = map result s"
  by (auto simp: gather_result_def split: if_splits)

lemma run_gather_aligned:
  assumes "run a ts evs (gather_init ts) = Some s" and "gather_result s = Some rs"
  shows "length rs = length ts
       \<and> (\<forall>i<length ts. \<exists>out. delivered evs i = Some out \<and> rs ! i = snd (ts ! i) out)"
proof (intro conjI allI impI)
  have len: "length s = length ts"
    using run_length [OF assms(1)] by (simp add: gather_init_def)
  have alld: "list_all is_Done s" and rs: "rs = map result s"
    using gather_result_Some [OF assms(2)] by simp_all
  show "length rs = length ts"
    by (simp add: rs len)
  fix i assume i: "i < length ts"
  have "is_Done (s ! i)"
    using alld i len by (simp add: list_all_length)
  moreover have "\<not> is_Done (gather_init ts ! i)" and "i < length (gather_init ts)"
    using i by (simp_all add: gather_init_def)
  ultimately obtain out where "delivered evs i = Some out" "s ! i = Done (snd (ts ! i) out)"
    using run_done_delivered [OF assms(1)] by blast
  then show "\<exists>out. delivered evs i = Some out \<and> rs ! i = snd (ts ! i) out"
    using i len by (simp add: rs)
qed

lemma gather_result_all_done:
  "gather_result (map (\<lambda>k. Done (g k)) ks) = Some (map g ks)"
  by (simp add: gather_result_def list_all_iff comp_def)

lemma list_all_update: "list_all P s \<Longrightarrow> P x \<Longrightarrow> list_all P (s[i := x])"
  using set_update_subset_insert [of s i x] by (auto simp: list_all_iff)

text \<open>With aiohttp: tasks that have not started enter their HTTP call in any order.\<close>

lemma run_starts:
  "distinct q \<Longrightarrow> \<forall>i\<in>set q. i < length s \<and> is_Pending (s ! i) \<Longrightarrow>
   run True ts (map Start q) s
     = Some (map (\<lambda>k. if k \<in> set q then InFlight else s ! k) [0..<length s])"
proof (induction q arbitrary: s)
  case Nil
  show ?case by (simp add: map_nth)
next
  case (Cons i q)
  let ?s1 = "s[i := InFlight]"
  have st: "step True ts (Start i) s = Some ?s1"
    using Cons.prems(2) by simp
  have "\<forall>j\<in>set q. j < length ?s1 \<and> is_Pending (?s1 ! j)"
    using Cons.prems by (auto simp: nth_list_update)
  then have "run True ts (map Start q) ?s1
     = Some (map (\<lambda>k. if k \<in> set q then InFlight else ?s1 ! k) [0..<length ?s1])"
    using Cons.prems(1) by (intro Cons.IH) simp_all
  moreover have "map (\<lambda>k. if k \<in> set q then InFlight else ?s1 ! k) [0..<length ?s1]
      = map (\<lambda>k. if k \<in> set (i # q) then InFlight else s ! k) [0..<length s]"
    using Cons.prems by (auto simp: nth_list_update)
  ultimately show ?case
    by (simp only: list.map run.simps st option.case)
qed

lemma run_start_all_any_order:
  assumes "distinct q" and "set q = {0..<length ts}"
  shows "run True ts (map Start q) (gather_init ts) = Some (replicate (length ts) InFlight)"
proof -
  have "run True ts (map Start q) (gather_init ts)
          = Some (map (\<lambda>k. if k \<in> set q then InFlight else gather_init ts ! k)
                   [0..<length (gather_init ts)])"
    using assms by (intro run_starts) (simp_all add: gather_init_def)
  also have "\<dots> = Some (map (\<lambda>k. InFlight) [0..<length ts])"
    using assms(2) by (simp add: gather_init_def)
  also have "\<dots> = Some (replicate (length ts) InFlight)"
    by (simp add: map_replicate_const)
  finally show ?thesis .
qed

lemma run_start_all:
  "run True ts (map Start [0..<length ts]) (gather_init ts) = Some (replicate (length ts) InFlight)"
  by (rule run_start_all_any_order) simp_all

text \<open>Delivering the outcomes of outstanding calls in any order.\<close>

lemma run_completes:
  "distinct p \<Longrightarrow> \<forall>i\<in>set p. i < length s \<and> i < length ts \<and> is_InFlight (s ! i) \<Longrightarrow>
   run a ts (map (\<lambda>i. Complete i (f i)) p) s
     = Some (map (\<lambda>k. if k \<in> set p then Done (snd (ts ! k) (f k)) else s ! k) [0..<length s])"
proof (induction p arbitrary: s)
  case Nil
  show ?case by (simp add: map_nth)
next
  case (Cons i p)
  let ?s1 = "s[i := Done (snd (ts ! i) (f i))]"
  have st: "step a ts (Complete i (f i)) s = Some ?s1"
    using Cons.prems(2) by simp
  have "\<forall>j\<in>set p. j < length ?s1 \<and> j < length ts \<and> is_InFlight (?s1 ! j)"
    using Cons.prems by (auto simp: nth_list_update)
  then have "run a ts (map (\<lambda>i. Complete i (f i)) p) ?s1
     = Some (map (\<lambda>k. if k \<in> set p then Done (snd (ts ! k) (f k)) else ?s1 ! k) [0..<length ?s1])"
    using Cons.prems(1) by (intro Cons.IH) simp_all
  moreover have "map (\<lambda>k. if k \<in> set p then Done (snd (ts ! k) (f k)) else ?s1 ! k) [0..<length ?s1]
      = map (\<lambda>k. if k \<in> set (i # p) then Done (snd (ts ! k) (f k)) else s ! k) [0..<length s]"
    using Cons.prems by (auto simp: nth_list_update)
  ultimately show ?case
    by (simp only: list.map run.simps st option.case)
qed

lemma run_any_start_and_completion_order:
  assumes "distinct q" and "set q = {0..<length ts}"
    and "distinct p" and "set p = {0..<length ts}"
  shows "run True ts (map Start q @ map (\<lambda>i. Complete i (f i)) p) (gather_init ts)
           = Some (map (\<lambda>k. Done (snd (ts ! k) (f k))) [0..<length ts])"
proof -
  have "run True ts (map (\<lambda>i. Complete i (f i)) p) (replicate (length ts) InFlight)
          = Some (map (\<lambda>k. if k \<in> set p then Done (snd (ts ! k) (f k))
                            else replicate (length ts) InFlight ! k)
                   [0..<length (replicate (length ts) InFlight)])"
    using assms(3,4) by (intro run_completes) simp_all
  also have "\<dots> = Some (map (\<lambda>k. Done (snd (ts ! k) (f k))) [0..<length ts])"
    using assms(4) by simp
  finally show ?thesis
    by (simp add: run_append run_start_all_any_order [OF assms(1,2)])
qed

text \<open>
  With either client: running the tasks one at a time, in any order, each to its
  return before the next starts.
\<close>

lemma run_one_by_one:
  "distinct p \<Longrightarrow> \<forall>i\<in>set p. i < length s \<and> i < length ts \<and> is_Pending (s ! i) \<Longrightarrow>
   list_all (\<lambda>x. \<not> is_InFlight x) s \<Longrightarrow>
   run a ts (concat (map (\<lambda>i. [Start i, Complete i (f i)]) p)) s
     = Some (map (\<lambda>k. if k \<in> set p then Done (snd (ts ! k) (f k)) else s ! k) [0..<length s])"
proof (induction p arbitrary: s)
  case Nil
  show ?case by (simp add: map_nth)
next
  case (Cons i p)
  let ?s1 = "s[i := Done (snd (ts ! i) (f i))]"
  have st: "step a ts (Start i) s = Some (s[i := InFlight])"
    using Cons.prems(2,3) by simp
  have co: "step a ts (Complete i (f i)) (s[i := InFlight]) = Some ?s1"
    using Cons.prems(2) by simp
  have "\<forall>j\<in>set p. j < length ?s1 \<and> j < length ts \<and> is_Pending (?s1 ! j)"
    using Cons.prems by (auto simp: nth_list_update)
  moreover have "list_all (\<lambda>x. \<not> is_InFlight x) ?s1"
    using Cons.prems(3) by (intro list_all_update) simp_all
  ultimately have "run a ts (concat (map (\<lambda>i. [Start i, Complete i (f i)]) p)) ?s1
     = Some (map (\<lambda>k. if k \<in> set p then Done (snd (ts ! k) (f k)) else ?s1 ! k) [0..<length ?s1])"
    using Cons.prems(1) by (intro Cons.IH) simp_all
  moreover have "map (\<lambda>k. if k \<in> set p then Done (snd (ts ! k) (f k)) else ?s1 ! k) [0..<length ?s1]
      = map (\<lambda>k. if k \<in> set (i # p) then Done (snd (ts ! k) (f k)) else s ! k) [0..<length s]"
    using Cons.prems by (auto simp: nth_list_update)
  ultimately show ?case
    by (simp only: list.map concat.simps append.simps run.simps st co option.case)
qed

lemma run_one_by_one_any_order:
  assumes "distinct p" and "set p = {0..<length ts}"
  shows "run a ts (concat (map (\<lambda>i. [Start i, Complete i (f i)]) p)) (gather_init ts)
     = Some (map (\<lambda>i. Done (snd (ts ! i) (f i))) [0..<length ts])"
proof -
  have "run a ts (concat (map (\<lambda>i. [Start i, Complete i (f i)]) p)) (gather_init ts)
          = Some (map (\<lambda>k. if k \<in> set p then Done (snd (ts ! k) (f k))
                            else gather_init ts ! k)
                   [0..<length (gather_init ts)])"
    using assms by (intro run_one_by_one) (simp_all add: gather_init_def list_all_iff)
  also have "\<dots> = Some (map (\<lambda>i. Done (snd (ts ! i) (f i))) [0..<length ts])"
    using assms(2) by (simp add: gather_init_def)
  finally show ?thesis .
qed


text \<open>With the \<open>requests\<close> fallback no two tasks are inside their HTTP call at once.\<close>

lemma sync_step_no_overlap:
  assumes "step False ts e s = Some s'"
    and "\<forall>i j. i < j \<and> j < length s \<longrightarrow> \<not> (is_InFlight (s ! i) \<and> is_InFlight (s ! j))"
  shows "\<forall>i j. i < j \<and> j < length s' \<longrightarrow> \<not> (is_InFlight (s' ! i) \<and> is_InFlight (s' ! j))"
proof (cases e)
  case (Start k)
  with assms(1) have k: "k < length s"
      and none: "\<forall>i<length s. \<not> is_InFlight (s ! i)"
      and s': "s' = s[k := InFlight]"
    by (auto simp: list_all_length split: if_splits)
  show ?thesis
  proof (intro allI impI)
    fix i j assume ij: "i < j \<and> j < length s'"
    then have "i < length s" "j < length s" "i \<noteq> j"
      using s' by simp_all
    then have "\<not> is_InFlight (s' ! i) \<or> \<not> is_InFlight (s' ! j)"
      using none s' k by (cases "i = k") (auto simp: nth_list_update)
    then show "\<not> (is_InFlight (s' ! i) \<and> is_InFlight (s' ! j))" by blast
  qed
next
  case (Complete k out)
  with assms(1) have k: "k < length s"
      and s': "s' = s[k := Done (snd (ts ! k) out)]"
    by (auto split: if_splits)
  show ?thesis
  proof (intro allI impI)
    fix i j assume ij: "i < j \<and> j < length s'"
    then have "i < j \<and> j < length s"
      using s' by simp
    then have b: "\<not> (is_InFlight (s ! i) \<and> is_InFlight (s ! j))"
      using assms(2) by blast
    have "is_InFlight (s' ! n) \<longrightarrow> is_InFlight (s ! n)" for n
      using s' k by (cases "n = k") (auto simp: nth_list_update)
    with b show "\<not> (is_InFlight (s' ! i) \<and> is_InFlight (s' ! j))" by blast
  qed
qed

lemma sync_run_no_overlap:
  "run False ts evs s = Some s' \<Longrightarrow>
   \<forall>i j. i < j \<and> j < length s \<longrightarrow> \<not> (is_InFlight (s ! i) \<and> is_InFlight (s ! j)) \<Longrightarrow>
   \<forall>i j. i < j \<and> j < length s' \<longrightarrow> \<not> (is_InFlight (s' ! i) \<and> is_InFlight (s' ! j))"
proof (induction evs arbitrary: s)
  case Nil
  then show ?case by simp
next
  case (Cons e es)
  from Cons.prems(1) obtain s1 where s1: "step False ts e s = Some s1"
      "run False ts es s1 = Some s'"
    by (auto split: option.splits)
  from sync_step_no_overlap [OF s1(1) Cons.prems(2)] Cons.IH [OF s1(2)]
  show ?case by blast
qed

lemma sync_gather_no_overlap:
  assumes "run False ts evs (gather_init ts) = Some s"
  shows "\<forall>i j. i < j \<and> j < length s \<longrightarrow> \<not> (is_InFlight (s ! i) \<and> is_InFlight (s ! j))"
  using assms by (rule sync_run_no_overlap) (simp add: gather_init_def)

lemma filter_at_most_one:
  "(\<forall>i j. i < j \<and> j < length xs \<longrightarrow> \<not> (P (xs ! i) \<and> P (xs ! j)))
   \<Longrightarrow> length (filter P xs) \<le> 1"
proof (induction xs)
  case Nil
  show ?case by simp
next
  case (Cons x xs)
  have tl: "\<forall>i j. i < j \<and> j < length xs \<longrightarrow> \<not> (P (xs ! i) \<and> P (xs ! j))"
  proof (intro allI impI)
    fix i j assume "i < j \<and> j < length xs"
    then have "Suc i < Suc j \<and> Suc j < length (x # xs)" by simp
    then have "\<not> (P ((x # xs) ! Suc i) \<and> P ((x # xs) ! Suc j))"
      using Cons.prems by blast
    then show "\<not> (P (xs ! i) \<and> P (xs ! j))" by simp
  qed
  show ?case
  proof (cases "P x")
    case True
    have "\<not> P y" if "y \<in> set xs" for y
    proof -
      from that obtain j where j: "j < length xs" "xs ! j = y"
        by (auto simp: in_set_conv_nth)
      then have "0 < Suc j \<and> Suc j < length (x # xs)" by simp
      then have "\<not> (P ((x # xs) ! 0) \<and> P ((x # xs) ! Suc j))"
        using Cons.prems by blast
      with True j show ?thesis by simp
    qed
    then have "filter P xs = []" by (simp add: filter_empty_conv)
    with True show ?thesis by simp
  next
    case False
    then show ?thesis using Cons.IH [OF tl] by simp
  qed
qed

lemma in_flight_le_length: "in_flight s \<le> length s"
  by (simp add: in_flight_def)

lemma in_flight_replicate: "in_flight (replicate n InFlight) = n"
  by (simp add: in_flight_def)

lemma sync_in_flight_le_1:
  "run False ts evs (gather_init ts) = Some s \<Longrightarrow> in_flight s \<le> 1"
  unfolding in_flight_def by (rule filter_at_most_one) (rule sync_gather_no_overlap)

section \<open>Messages to one session in a batch\<close>




section \<open>The number of outstanding calls\<close>

text \<open>
  Claim C2, as stated, at a concrete batch: the load test with two sessions and three
  messages each gives six tasks, and with aiohttp all six HTTP calls are outstanding at
  once, more than a ceiling of five.
\<close>

theorem demo_3_all_in_flight:
  "map_option in_flight
     (run True
        (message_tasks True (SessionClient_init ''http://localhost:8000'')
           (demo_3_batch [''s1'', ''s2''] 3))
        [Start 0, Start 1, Start 2, Start 3, Start 4, Start 5]
        (gather_init (message_tasks True (SessionClient_init ''http://localhost:8000'')
           (demo_3_batch [''s1'', ''s2''] 3))))
     = Some 6
   \<and> \<not> (6::nat) \<le> 5"
  by code_simp

text \<open>
  Claim C2, amended: the number of outstanding calls of a batch of \<open>N\<close> tasks never
  exceeds \<open>N\<close>, and with aiohttp it reaches \<open>N\<close>: \<open>gather\<close> starts every task
  before any outcome is awaited. With the \<open>requests\<close> fallback at most one call is
  outstanding.
\<close>

theorem in_flight_bounded_by_batch_only:
  "(run USE_ASYNC ts evs (gather_init ts) = Some s
      \<longrightarrow> in_flight s \<le> length ts \<and> (\<not> USE_ASYNC \<longrightarrow> in_flight s \<le> 1))
   \<and> map_option in_flight (run True ts (map Start [0..<length ts]) (gather_init ts))
       = Some (length ts)"
proof -
  have 1: "in_flight s \<le> length ts \<and> (\<not> USE_ASYNC \<longrightarrow> in_flight s \<le> 1)"
    if r: "run USE_ASYNC ts evs (gather_init ts) = Some s"
  proof -
    have "length s = length ts"
      using run_length [OF r] by (simp add: gather_init_def)
    then have a: "in_flight s \<le> length ts"
      using in_flight_le_length [of s] by simp
    have "in_flight s \<le> 1" if "\<not> USE_ASYNC"
      using that r sync_in_flight_le_1 [of ts evs s] by simp
    with a show ?thesis by simp
  qed
  have 2: "map_option in_flight (run True ts (map Start [0..<length ts]) (gather_init ts))
       = Some (length ts)"
    by (simp add: run_start_all in_flight_replicate)
  from 1 2 show ?thesis by blast
qed

theorem in_flight_bounded_by_batch_only_witness:
  "run False
     (message_tasks False (SessionClient_init ''http://localhost:8000'')
        [(''s1'', ''Test message 1''), (''s1'', ''Test message 2'')])
     [Start 0]
     (gather_init (message_tasks False (SessionClient_init ''http://localhost:8000'')
        [(''s1'', ''Test message 1''), (''s1'', ''Test message 2'')]))
     = Some [InFlight, Pending]
   \<and> in_flight [InFlight, Pending] \<le> 1"
proof -
  let ?ts = "message_tasks False (SessionClient_init ''http://localhost:8000'')
        [(''s1'', ''Test message 1''), (''s1'', ''Test message 2'')]"
  have r: "run False ?ts [Start 0] (gather_init ?ts) = Some [InFlight, Pending]"
    by (simp add: message_tasks_def gather_init_def)
  from in_flight_bounded_by_batch_only [of False ?ts "[Start 0]" "[InFlight, Pending]"] r
  show ?thesis by simp
qed

section \<open>The order of the results of a batch\<close>

text \<open>
  Claim C3: when a batch has run to its end, under any schedule, the list that
  \<open>gather\<close> returns has one slot per task, and slot \<open>i\<close> holds what task \<open>i\<close>
  made of the outcome delivered to task \<open>i\<close>. The batch does return that list under
  either client: with aiohttp for every order \<open>q\<close> in which the tasks start and every
  order \<open>p\<close> in which their outcomes arrive, and with either client when the tasks run
  one at a time in any order \<open>p\<close>; the list is the same in all these cases, aligned
  with the tasks.
\<close>

theorem gather_results_aligned:
  "(run USE_ASYNC ts evs (gather_init ts) = Some s \<and> gather_result s = Some rs
      \<longrightarrow> length rs = length ts
        \<and> (\<forall>i<length ts. \<exists>out. delivered evs i = Some out \<and> rs ! i = snd (ts ! i) out))
   \<and> (distinct q \<and> set q = {0..<length ts} \<and> distinct p \<and> set p = {0..<length ts}
      \<longrightarrow> Option.bind
            (run True ts (map Start q @ map (\<lambda>i. Complete i (f i)) p) (gather_init ts))
            gather_result
          = Some (map (\<lambda>i. snd (ts ! i) (f i)) [0..<length ts]))
   \<and> (distinct p \<and> set p = {0..<length ts}
      \<longrightarrow> Option.bind
            (run USE_ASYNC ts (concat (map (\<lambda>i. [Start i, Complete i (f i)]) p))
               (gather_init ts))
            gather_result
          = Some (map (\<lambda>i. snd (ts ! i) (f i)) [0..<length ts]))"
proof -
  have 1: "length rs = length ts
        \<and> (\<forall>i<length ts. \<exists>out. delivered evs i = Some out \<and> rs ! i = snd (ts ! i) out)"
    if "run USE_ASYNC ts evs (gather_init ts) = Some s \<and> gather_result s = Some rs"
    using that run_gather_aligned by blast
  have 2: "Option.bind
            (run True ts (map Start q @ map (\<lambda>i. Complete i (f i)) p) (gather_init ts))
            gather_result
          = Some (map (\<lambda>i. snd (ts ! i) (f i)) [0..<length ts])"
    if "distinct q \<and> set q = {0..<length ts} \<and> distinct p \<and> set p = {0..<length ts}"
  proof -
    have "run True ts (map Start q @ map (\<lambda>i. Complete i (f i)) p) (gather_init ts)
             = Some (map (\<lambda>k. Done (snd (ts ! k) (f k))) [0..<length ts])"
      using that run_any_start_and_completion_order by blast
    then show ?thesis
      by (simp add: gather_result_all_done)
  qed
  have 3: "Option.bind
            (run USE_ASYNC ts (concat (map (\<lambda>i. [Start i, Complete i (f i)]) p))
               (gather_init ts))
            gather_result
          = Some (map (\<lambda>i. snd (ts ! i) (f i)) [0..<length ts])"
    if "distinct p \<and> set p = {0..<length ts}"
  proof -
    have "run USE_ASYNC ts (concat (map (\<lambda>i. [Start i, Complete i (f i)]) p))
               (gather_init ts)
             = Some (map (\<lambda>k. Done (snd (ts ! k) (f k))) [0..<length ts])"
      using that run_one_by_one_any_order by blast
    then show ?thesis
      by (simp add: gather_result_all_done)
  qed
  from 1 2 3 show ?thesis by blast
qed

theorem gather_results_aligned_witness:
  "Option.bind
     (run True
        [create_session_task True (SessionClient_init ''http://localhost:8000'')
           ''User 1'' (Some ''user1@example.com'') (Some ''Test user number 1''),
         create_session_task True (SessionClient_init ''http://localhost:8000'')
           ''User 2'' (Some ''user2@example.com'') (Some ''Test user number 2'')]
        [Start 1, Start 0,
         Complete 1 (Responded \<lparr>resp_status = 200, resp_text = ''ok'',
                       resp_json = Inr (PyDict [(''session_id'', PyStr ''b'')])\<rparr>),
         Complete 0 (Responded \<lparr>resp_status = 200, resp_text = ''ok'',
                       resp_json = Inr (PyDict [(''session_id'', PyStr ''a'')])\<rparr>)]
        [Pending, Pending])
     gather_result
   = Some [PyStr ''a'', PyStr ''b'']
   \<and> (\<exists>out.
         delivered
           [Start 1, Start 0,
            Complete 1 (Responded \<lparr>resp_status = 200, resp_text = ''ok'',
                          resp_json = Inr (PyDict [(''session_id'', PyStr ''b'')])\<rparr>),
            Complete 0 (Responded \<lparr>resp_status = 200, resp_text = ''ok'',
                          resp_json = Inr (PyDict [(''session_id'', PyStr ''a'')])\<rparr>)] 1
           = Some out
         \<and> [PyStr ''a'', PyStr ''b''] ! 1 = client_create_session_result True out)
   \<and> Option.bind
     (run False
        [create_session_task False (SessionClient_init ''http://localhost:8000'')
           ''User 1'' (Some ''user1@example.com'') (Some ''Test user number 1''),
         create_session_task False (SessionClient_init ''http://localhost:8000'')
           ''User 2'' (Some ''user2@example.com'') (Some ''Test user number 2'')]
        [Start 1,
         Complete 1 (Responded \<lparr>resp_status = 200, resp_text = ''ok'',
                       resp_json = Inr (PyDict [(''session_id'', PyStr ''b'')])\<rparr>),
         Start 0,
         Complete 0 (Responded \<lparr>resp_status = 200, resp_text = ''ok'',
                       resp_json = Inr (PyDict [(''session_id'', PyStr ''a'')])\<rparr>)]
        [Pending, Pending])
     gather_result
   = Some [PyStr ''a'', PyStr ''b'']"
proof -
  let ?c = "SessionClient_init ''http://localhost:8000''"
  let ?ts = "[create_session_task True ?c
                ''User 1'' (Some ''user1@example.com'') (Some ''Test user number 1''),
              create_session_task True ?c
                ''User 2'' (Some ''user2@example.com'') (Some ''Test user number 2'')]"
  let ?tf = "[create_session_task False ?c
                ''User 1'' (Some ''user1@example.com'') (Some ''Test user number 1''),
              create_session_task False ?c
                ''User 2'' (Some ''user2@example.com'') (Some ''Test user number 2'')]"
  let ?a = "Responded \<lparr>resp_status = 200, resp_text = ''ok'',
                       resp_json = Inr (PyDict [(''session_id'', PyStr ''a'')])\<rparr>"
  let ?b = "Responded \<lparr>resp_status = 200, resp_text = ''ok'',
                       resp_json = Inr (PyDict [(''session_id'', PyStr ''b'')])\<rparr>"
  let ?evs = "[Start 1, Start 0, Complete 1 ?b, Complete 0 ?a]"
  have p: "distinct [1, 0 :: nat] \<and> set [1, 0 :: nat] = {0..<length ?ts}"
    by auto
  have pf: "distinct [1, 0 :: nat] \<and> set [1, 0 :: nat] = {0..<length ?tf}"
    by auto
  have u: "[0..<length ?ts] = [0, 1]" "[0..<length ?tf] = [0, 1]"
    by (simp_all add: upt_rec)
  have h: "client_create_session_result a
             (Responded \<lparr>resp_status = 200, resp_text = ''ok'',
                resp_json = Inr (PyDict [(''session_id'', PyStr x)])\<rparr>) = PyStr x" for x a
    by (simp add: client_create_session_result_def client_create_session_try_def
        except_return_None_def client_raises_def aiohttp_raises_def requests_raises_def)
  have r: "run True ?ts ?evs (gather_init ?ts) = Some [Done (PyStr ''a''), Done (PyStr ''b'')]
           \<and> gather_result [Done (PyStr ''a''), Done (PyStr ''b'')]
               = Some [PyStr ''a'', PyStr ''b'']"
    by (simp add: gather_init_def create_session_task_def h gather_result_def)
  have t1: "snd (?ts ! 1) = client_create_session_result True"
    by (simp add: create_session_task_def)
  note inst = gather_results_aligned
    [where USE_ASYNC = True and ts = ?ts and evs = ?evs
       and s = "[Done (PyStr ''a''), Done (PyStr ''b'')]" and rs = "[PyStr ''a'', PyStr ''b'']"
       and q = "[1, 0]" and p = "[1, 0]" and f = "(!) [?a, ?b]"]
  from inst p
  have "Option.bind
            (run True ?ts (map Start [1, 0] @ map (\<lambda>i. Complete i ([?a, ?b] ! i)) [1, 0])
               (gather_init ?ts))
            gather_result
          = Some (map (\<lambda>i. snd (?ts ! i) ([?a, ?b] ! i)) [0..<length ?ts])"
    by blast
  then have 1: "Option.bind (run True ?ts ?evs [Pending, Pending]) gather_result
                  = Some [PyStr ''a'', PyStr ''b'']"
    unfolding u by (simp add: gather_init_def create_session_task_def h)
  from inst r
  have "\<forall>i<length ?ts. \<exists>out. delivered ?evs i = Some out
           \<and> [PyStr ''a'', PyStr ''b''] ! i = snd (?ts ! i) out"
    by blast
  moreover have "1 < length ?ts"
    by simp
  ultimately have "\<exists>out. delivered ?evs 1 = Some out
           \<and> [PyStr ''a'', PyStr ''b''] ! 1 = snd (?ts ! 1) out"
    by blast
  then have 2: "\<exists>out. delivered ?evs 1 = Some out
           \<and> [PyStr ''a'', PyStr ''b''] ! 1 = client_create_session_result True out"
    by (simp only: t1)
  from gather_results_aligned
    [where USE_ASYNC = False and ts = ?tf and p = "[1, 0]" and f = "(!) [?a, ?b]"] pf
  have "Option.bind
            (run False ?tf (concat (map (\<lambda>i. [Start i, Complete i ([?a, ?b] ! i)]) [1, 0]))
               (gather_init ?tf))
            gather_result
          = Some (map (\<lambda>i. snd (?tf ! i) ([?a, ?b] ! i)) [0..<length ?tf])"
    by blast
  then have 3: "Option.bind
                  (run False ?tf [Start 1, Complete 1 ?b, Start 0, Complete 0 ?a]
                     [Pending, Pending])
                  gather_result
                  = Some [PyStr ''a'', PyStr ''b'']"
    unfolding u by (simp add: gather_init_def create_session_task_def h)
  from 1 2 3 show ?thesis by blast
qed

section \<open>Failures inside a batch\<close>




end
